theory Spec2Isabelle
  imports Complex_Main "HOL-Library.Sublist"
begin

section \<open>Awaited calls\<close>

text \<open>
  The front end is TypeScript: every call into a plugin or into the backend is awaited and
  either resolves with a value or rejects with a thrown value. Of a thrown value the code
  reads the \<open>message\<close> when it is an instance of \<open>Error\<close>, and otherwise converts it to
  a string, with \<open>String(e)\<close> or inside a template literal (\<open>${e}\<close>). The conversion is
  itself code that can throw:
  \<^item> \<open>ErrorInstance m str\<close> is an \<open>Error\<close> with the message \<open>m\<close>, converted to \<open>str\<close>;
  \<^item> \<open>OtherThrown str\<close> is any other value that both conversions turn into \<open>str\<close>;
  \<^item> \<open>SymbolThrown str t\<close> is a symbol: \<open>String(e)\<close> gives \<open>str\<close>, a template literal
    throws \<open>t\<close> (a \<open>TypeError\<close>);
  \<^item> \<open>Unconvertible t\<close> is a value without a string conversion, such as an object with
    no prototype: both conversions throw \<open>t\<close>.
\<close>

datatype thrown =
    ErrorInstance string string
  | OtherThrown string
  | SymbolThrown string thrown
  | Unconvertible thrown

datatype 'a outcome = Returns 'a | Throws thrown

text \<open>\<open>e instanceof Error ? e.message : String(e)\<close>\<close>

fun thrown_message :: "thrown \<Rightarrow> string outcome" where
  "thrown_message (ErrorInstance m str) = Returns m"
| "thrown_message (OtherThrown str) = Returns str"
| "thrown_message (SymbolThrown str t) = Returns str"
| "thrown_message (Unconvertible t) = Throws t"

text \<open>The template literal \<open>`${e}`\<close>.\<close>

fun thrown_template :: "thrown \<Rightarrow> string outcome" where
  "thrown_template (ErrorInstance m str) = Returns str"
| "thrown_template (OtherThrown str) = Returns str"
| "thrown_template (SymbolThrown str t) = Throws t"
| "thrown_template (Unconvertible t) = Throws t"

section \<open>The settings store (src/unnamed/part_000)\<close>

record AppSettings =
  autoCheckUpdate :: bool

definition DEFAULT_SETTINGS :: AppSettings where
  "DEFAULT_SETTINGS = \<lparr>autoCheckUpdate = True\<rparr>"

text \<open>
  The module owns a \<open>LazyStore("settings.json")\<close> and the reactive \<open>settings\<close> object.
  The store is typed by its only use, \<open>get<boolean>\<close> and \<open>set(key, boolean)\<close>: a map
  from keys to booleans, where an absent key is what \<open>get\<close> answers \<open>undefined\<close> for.
  \<open>entries\<close> is the store in memory, \<open>saved\<close> what \<open>save()\<close> wrote to disk.
\<close>

record settings_module =
  entries :: "string \<rightharpoonup> bool"
  saved :: "string \<rightharpoonup> bool"
  settings :: AppSettings

definition settings_init :: settings_module where
  "settings_init = \<lparr>entries = Map.empty, saved = Map.empty, settings = DEFAULT_SETTINGS\<rparr>"

text \<open>
  Each store operation is awaited and may reject; \<open>store_io\<close> says which of them do in one
  call of the module (\<open>None\<close>: the operation resolves).
\<close>

record store_io =
  get_rejects :: "thrown option"
  set_rejects :: "thrown option"
  save_rejects :: "thrown option"

definition io_ok :: store_io where
  "io_ok = \<lparr>get_rejects = None, set_rejects = None, save_rejects = None\<rparr>"

text \<open>
  \<^verbatim>\<open>
  const autoCheckUpdate = await store.get<boolean>("autoCheckUpdate");
  settings.autoCheckUpdate = autoCheckUpdate ?? DEFAULT_SETTINGS.autoCheckUpdate;
  return settings;
  \<close>
\<close>

definition loadSettings :: "store_io \<Rightarrow> settings_module \<Rightarrow> (AppSettings \<times> settings_module) outcome" where
  "loadSettings io m =
     (case get_rejects io of
        Some e \<Rightarrow> Throws e
      | None \<Rightarrow>
          (let got = entries m ''autoCheckUpdate'';
               m' = m\<lparr>settings := (settings m)\<lparr>autoCheckUpdate :=
                        (case got of Some b \<Rightarrow> b
                                   | None \<Rightarrow> autoCheckUpdate DEFAULT_SETTINGS)\<rparr>\<rparr>
           in Returns (settings m', m')))"

text \<open>
  \<^verbatim>\<open>
  await store.set("autoCheckUpdate", value);
  await store.save();
  settings.autoCheckUpdate = value;
  \<close>
\<close>

definition setAutoCheckUpdate :: "bool \<Rightarrow> store_io \<Rightarrow> settings_module \<Rightarrow> settings_module outcome" where
  "setAutoCheckUpdate v io m =
     (case set_rejects io of
        Some e \<Rightarrow> Throws e
      | None \<Rightarrow>
          (let m1 = m\<lparr>entries := (entries m)(''autoCheckUpdate'' \<mapsto> v)\<rparr> in
           case save_rejects io of
             Some e \<Rightarrow> Throws e
           | None \<Rightarrow>
               (let m2 = m1\<lparr>saved := entries m1\<rparr> in
                Returns (m2\<lparr>settings := (settings m2)\<lparr>autoCheckUpdate := v\<rparr>\<rparr>))))"

definition getSettings :: "settings_module \<Rightarrow> AppSettings" where
  "getSettings m = settings m"

section \<open>The application updater store (src/lib/stores/updater.svelte.ts)\<close>

text \<open>
  \<open>Update\<close> is the plugin's class; the front end reads its \<open>version\<close> only. The selector
  \<open>version\<close> is written \<open>update_version\<close> and the field \<open>error\<close> of \<open>UpdateState\<close> is written \<open>upd_error\<close> here, since the page state below
  has a field \<open>error\<close> of another type.
\<close>

datatype Update = Update (update_version: string)

record UpdateState =
  "checking" :: bool
  available :: bool
  downloading :: bool
  progress :: int
  update :: "Update option"
  upd_error :: "string option"

definition update_state_init :: UpdateState where
  "update_state_init =
     \<lparr>checking = False, available = False, downloading = False, progress = 0,
      update = None, upd_error = None\<rparr>"

text \<open>
  \<^verbatim>\<open>
  state.checking = true;
  state.error = null;
  try {
    const update = await check();
    state.update = update;
    state.available = update !== null;
    return update;
  } catch (e) {
    state.error = e instanceof Error ? e.message : String(e);
    return null;
  } finally {
    state.checking = false;
  }
  \<close>
  The argument \<open>chk\<close> is the outcome of the plugin's \<open>check()\<close>. The result is an
  \<open>outcome\<close> so that "does not throw" is a statement about it: when the conversion in
  the \<open>catch\<close> throws, nothing is assigned to \<open>state.error\<close>, the \<open>finally\<close> runs and
  the call rejects with what the conversion threw.
\<close>

definition checkForUpdate :: "Update option outcome \<Rightarrow> UpdateState \<Rightarrow> Update option outcome \<times> UpdateState" where
  "checkForUpdate chk st =
     (let st1 = st\<lparr>checking := True, upd_error := None\<rparr>;
          (r, st2) =
            (case chk of
               Returns u \<Rightarrow> (Returns u, st1\<lparr>update := u, available := (u \<noteq> None)\<rparr>)
             | Throws e \<Rightarrow>
                 (case thrown_message e of
                    Returns m \<Rightarrow> (Returns None, st1\<lparr>upd_error := Some m\<rparr>)
                  | Throws t \<Rightarrow> (Throws t, st1)))
      in (r, st2\<lparr>checking := False\<rparr>))"

section \<open>The texts of the pages\<close>

text \<open>
  The pages' literals are Korean; each is kept as the UTF-8 bytes of the source's literal,
  with a gloss.
\<close>

definition txt_install_done :: string where
  \<comment> \<open>toast title: installation complete\<close>
  "txt_install_done = map char_of
     ([
       236, 132, 164, 236, 185, 152, 32, 236, 153, 132, 235, 163, 140] :: nat list)"

definition txt_install_done_desc :: string where
  \<comment> \<open>toast description: Path of Building was installed successfully\<close>
  "txt_install_done_desc = map char_of
     ([
       80, 97, 116, 104, 32, 111, 102, 32, 66, 117, 105, 108, 100, 105, 110, 103,
       236, 157, 180, 32, 236, 132, 177, 234, 179, 181, 236, 160, 129, 236, 156,
       188, 235, 161, 156, 32, 236, 132, 164, 236, 185, 152, 235, 144, 152, 236,
       151, 136, 236, 138, 181, 235, 139, 136, 235, 139, 164, 46] :: nat list)"

definition txt_install_failed :: string where
  \<comment> \<open>toast title and handleError context: installation failed\<close>
  "txt_install_failed = map char_of
     ([
       236, 132, 164, 236, 185, 152, 32, 236, 139, 164, 237, 140, 168] :: nat list)"

definition txt_install_failed_desc :: string where
  \<comment> \<open>toast description: an error occurred during installation\<close>
  "txt_install_failed_desc = map char_of
     ([
       236, 132, 164, 236, 185, 152, 32, 236, 164, 145, 32, 236, 152, 164, 235, 165,
       152, 234, 176, 128, 32, 235, 176, 156, 236, 131, 157, 237, 150, 136, 236,
       138, 181, 235, 139, 136, 235, 139, 164, 46] :: nat list)"

definition txt_install_cancelled :: string where
  \<comment> \<open>toast title: installation cancelled\<close>
  "txt_install_cancelled = map char_of
     ([
       236, 132, 164, 236, 185, 152, 32, 236, 183, 168, 236, 134, 140] :: nat list)"

definition txt_install_cancelled_desc :: string where
  \<comment> \<open>toast description: cancelled by the user\<close>
  "txt_install_cancelled_desc = map char_of
     ([
       236, 130, 172, 236, 154, 169, 236, 158, 144, 236, 151, 144, 32, 236, 157,
       152, 237, 149, 180, 32, 236, 183, 168, 236, 134, 140, 235, 144, 152, 236,
       151, 136, 236, 138, 181, 235, 139, 136, 235, 139, 164, 46] :: nat list)"

definition txt_installed_check_failed :: string where
  \<comment> \<open>handleError context: checking the installed version failed\<close>
  "txt_installed_check_failed = map char_of
     ([
       236, 132, 164, 236, 185, 152, 235, 144, 156, 32, 235, 178, 132, 236, 160,
       132, 32, 237, 153, 149, 236, 157, 184, 32, 236, 139, 164, 237, 140, 168] :: nat list)"

definition txt_error_prefix :: string where
  \<comment> \<open>prefix of the template literal for a thrown value: error:\<close>
  "txt_error_prefix = map char_of
     ([
       236, 152, 164, 235, 165, 152, 58, 32] :: nat list)"

definition txt_refresh_done :: string where
  \<comment> \<open>toast title: refresh complete\<close>
  "txt_refresh_done = map char_of
     ([
       236, 131, 136, 235, 161, 156, 234, 179, 160, 236, 185, 168, 32, 236, 153,
       132, 235, 163, 140] :: nat list)"

definition txt_refresh_done_desc :: string where
  \<comment> \<open>toast description: fetched the latest version information\<close>
  "txt_refresh_done_desc = map char_of
     ([
       236, 181, 156, 236, 139, 160, 32, 235, 178, 132, 236, 160, 132, 32, 236, 160,
       149, 235, 179, 180, 235, 165, 188, 32, 234, 176, 128, 236, 160, 184, 236,
       153, 148, 236, 138, 181, 235, 139, 136, 235, 139, 164, 46] :: nat list)"

definition txt_latest_check_failed :: string where
  \<comment> \<open>handleError context: checking the latest version failed\<close>
  "txt_latest_check_failed = map char_of
     ([
       236, 181, 156, 236, 139, 160, 32, 235, 178, 132, 236, 160, 132, 32, 237, 153,
       149, 236, 157, 184, 32, 236, 139, 164, 237, 140, 168] :: nat list)"

definition txt_check_latest_first :: string where
  \<comment> \<open>message: please check the latest version first\<close>
  "txt_check_latest_first = map char_of
     ([
       235, 168, 188, 236, 160, 128, 32, 236, 181, 156, 236, 139, 160, 32, 235, 178,
       132, 236, 160, 132, 236, 157, 132, 32, 237, 153, 149, 236, 157, 184, 237,
       149, 180, 236, 163, 188, 236, 132, 184, 236, 154, 148, 46] :: nat list)"

definition txt_uninstall_failed :: string where
  \<comment> \<open>handleError context: removal failed\<close>
  "txt_uninstall_failed = map char_of
     ([
       236, 160, 156, 234, 177, 176, 32, 236, 139, 164, 237, 140, 168] :: nat list)"

definition txt_uninstall_done :: string where
  \<comment> \<open>toast title: removal complete\<close>
  "txt_uninstall_done = map char_of
     ([
       236, 160, 156, 234, 177, 176, 32, 236, 153, 132, 235, 163, 140] :: nat list)"

definition txt_uninstall_done_desc :: string where
  \<comment> \<open>toast description: Path of Building was removed\<close>
  "txt_uninstall_done_desc = map char_of
     ([
       80, 97, 116, 104, 32, 111, 102, 32, 66, 117, 105, 108, 100, 105, 110, 103,
       236, 157, 180, 32, 236, 160, 156, 234, 177, 176, 235, 144, 152, 236, 151,
       136, 236, 138, 181, 235, 139, 136, 235, 139, 164, 46] :: nat list)"





section \<open>The backend's interface (src/lib/bindings.ts)\<close>

text \<open>
  Modelled from the spec: \<open>src/lib/bindings.ts\<close> is generated from the Rust backend and
  is not among the sources. The types below follow section 3 and section 7 of the
  specification, the \<open>ErrorKind\<close> enum quoted in the development guide (serialised with
  the tag \<open>kind\<close> and the content \<open>message\<close>; \<open>Cancelled\<close> has no message), and the
  fields and tags the pages use.
\<close>

datatype ErrorKind =
    Cancelled
  | Network string
  | Io string
  | NotFound string
  | Conflict string
  | Domain string

text \<open>\<open>errorKind.kind\<close> and \<open>errorKind.message\<close> (\<open>undefined\<close> on \<open>Cancelled\<close>).\<close>

fun errorKind_kind :: "ErrorKind \<Rightarrow> string" where
  "errorKind_kind Cancelled = ''cancelled''"
| "errorKind_kind (Network m) = ''network''"
| "errorKind_kind (Io m) = ''io''"
| "errorKind_kind (NotFound m) = ''notFound''"
| "errorKind_kind (Conflict m) = ''conflict''"
| "errorKind_kind (Domain m) = ''domain''"

fun errorKind_message :: "ErrorKind \<Rightarrow> string option" where
  "errorKind_message Cancelled = None"
| "errorKind_message (Network m) = Some m"
| "errorKind_message (Io m) = Some m"
| "errorKind_message (NotFound m) = Some m"
| "errorKind_message (Conflict m) = Some m"
| "errorKind_message (Domain m) = Some m"

text \<open>A command's result: \<open>{status: "ok", data}\<close> or \<open>{status: "error", error}\<close>.\<close>

datatype 'a Result = Ok 'a | Error ErrorKind

text \<open>\<open>ArtifactRef\<close> of the specification; the field \<open>id\<close> is written \<open>file_id\<close>.\<close>

record GoogleDriveFileInfo =
  file_id :: string
  name :: string
  isFolder :: bool

text \<open>\<open>InstallRecord\<close> of the specification; the timestamp is kept as the backend sends it.\<close>

record PobVersion =
  version :: string
  sourceId :: string
  installedAt :: string

datatype DownloadMode = Auto | Parallel | Single


datatype Phase =
  Downloading | Extracting | BackingUp | Moving | Restoring | Finalizing | Uninstalling

datatype Status = Started | InProgress | Completed | Failed | CancelledStatus

record InstallProgress =
  phase :: Phase
  status :: Status
  percent :: real
  totalSize :: "nat option"
  reason :: "string option"

text \<open>
  The commands the pages invoke. \<open>installPob\<close> takes the artifact and, on the main page,
  the download mode the page holds (a string at run time; the other page passes none).
\<close>

datatype command =
    InstalledPobInfo
  | FetchPob bool
  | ParseVersion string
  | InstallPob GoogleDriveFileInfo "string option"
  | CancelInstallPob
  | UninstallPob
  | ExecutePob
  | GetInstallPath

section \<open>The main page (src/routes/+page.svelte)\<close>

text \<open>
  What a function of the page does besides assigning its state is logged in order: the
  backend commands it invokes, the toasts it shows and the timers it sets.
\<close>

datatype toast_kind = ToastSuccess | ToastError | ToastInfo

datatype effect =
    Invoke command
  | Toast toast_kind string "string option"
  | SetTimeout_checkInstalledVersion nat

text \<open>\<open>error: { kind: string; message?: string } | null\<close>\<close>

record page_error =
  kind :: string
  message :: "string option"

record page_state =
  installedVersion :: "PobVersion option"
  latestVersion :: "GoogleDriveFileInfo option"
  latestVersionString :: "string option"
  installPath :: "string option"
  isInitialLoading :: bool
  isLoading :: bool
  isFetchingLatest :: bool
  error :: "page_error option"
  installProgress :: "InstallProgress option"
  showUninstallDialog :: bool
  downloadMode :: string
  localStorage :: "string \<rightharpoonup> string"
  effects :: "effect list"

text \<open>
  The state at the declarations of the script. \<open>downloadMode\<close> is
  \<open>(localStorage.getItem("downloadMode") as DownloadMode) || "auto"\<close>: the stored string
  unless it is absent or empty.
\<close>

definition page_init :: "(string \<rightharpoonup> string) \<Rightarrow> page_state" where
  "page_init ls =
     \<lparr>installedVersion = None, latestVersion = None, latestVersionString = None,
      installPath = None, isInitialLoading = True, isLoading = False,
      isFetchingLatest = False, error = None, installProgress = None,
      showUninstallDialog = False,
      downloadMode = (case ls ''downloadMode'' of
                        None \<Rightarrow> ''auto''
                      | Some m \<Rightarrow> if m = [] then ''auto'' else m),
      localStorage = ls, effects = []\<rparr>"






text \<open>
  \<^verbatim>\<open>
  function handleError(errorKind: ErrorKind, context: string) {
    if (errorKind.kind === "cancelled") {
      return;
    }
    error = { kind: errorKind.kind, message: errorKind.message };
    toast.error(context, { description: errorKind.message });
  }
  \<close>
\<close>

definition handleError :: "ErrorKind \<Rightarrow> string \<Rightarrow> page_state \<Rightarrow> page_state" where
  "handleError errorKind context s =
     (if errorKind_kind errorKind = ''cancelled'' then s
      else s\<lparr>error := Some \<lparr>kind = errorKind_kind errorKind,
                              message = errorKind_message errorKind\<rparr>,
             effects := effects s @ [Toast ToastError context (errorKind_message errorKind)]\<rparr>)"

text \<open>
  What an asynchronous function of the page settles with, and the state it leaves.
\<close>

type_synonym page_result = "unit outcome \<times> page_state"

text \<open>
  The \<open>catch (e)\<close> of the page's functions:
  \<open>error = { kind: "unknown", message: `...${e}` }\<close>. When the template literal throws,
  \<open>error\<close> is not assigned and the \<open>catch\<close> block throws in its turn.
\<close>

definition caught :: "thrown \<Rightarrow> page_state \<Rightarrow> page_result" where
  "caught e s =
     (case thrown_template e of
        Returns str \<Rightarrow>
          (Returns (),
           s\<lparr>error := Some \<lparr>kind = ''unknown'', message = Some (txt_error_prefix @ str)\<rparr>\<rparr>)
      | Throws t \<Rightarrow> (Throws t, s))"

text \<open>
  The listener of \<open>installProgress\<close> events: it stores the payload and, on a terminal
  status, shows a toast and schedules \<open>checkInstalledVersion\<close>.
\<close>

definition onInstallProgress :: "InstallProgress \<Rightarrow> page_state \<Rightarrow> page_state" where
  "onInstallProgress payload s =
     (let s1 = s\<lparr>installProgress := Some payload\<rparr> in
      if status payload = Completed then
        s1\<lparr>effects := effects s1 @
              [Toast ToastSuccess txt_install_done (Some txt_install_done_desc),
               SetTimeout_checkInstalledVersion 500]\<rparr>
      else if status payload = Failed then
        s1\<lparr>effects := effects s1 @
              [Toast ToastError txt_install_failed (Some txt_install_failed_desc),
               SetTimeout_checkInstalledVersion 500]\<rparr>
      else if status payload = CancelledStatus then
        s1\<lparr>effects := effects s1 @
              [Toast ToastInfo txt_install_cancelled (Some txt_install_cancelled_desc),
               SetTimeout_checkInstalledVersion 500]\<rparr>
      else s1)"

text \<open>
  An asynchronous function of the page is modelled with the reply of each command it
  awaits as an argument, and runs without another handler in between. Its \<open>finally\<close>
  block runs whether the \<open>try\<close> and the \<open>catch\<close> returned or threw.

  \<^verbatim>\<open>
  async function checkInstalledVersion() {
    isLoading = true;
    error = null;
    try {
      const result = await commands.installedPobInfo();
      if (result.status === "ok") {
        installedVersion = result.data;
      } else {
        handleError(result.error, ...);
      }
    } catch (e) {
      error = { kind: "unknown", message: `...${e}` };
    } finally {
      isLoading = false;
    }
  }
  \<close>
\<close>

definition checkInstalledVersion :: "PobVersion option Result outcome \<Rightarrow> page_state \<Rightarrow> page_result" where
  "checkInstalledVersion reply s =
     (let s1 = s\<lparr>isLoading := True, error := None,
                  effects := effects s @ [Invoke InstalledPobInfo]\<rparr>;
          (r, s2) =
            (case reply of
               Returns (Ok data) \<Rightarrow> (Returns (), s1\<lparr>installedVersion := data\<rparr>)
             | Returns (Error e) \<Rightarrow> (Returns (), handleError e txt_installed_check_failed s1)
             | Throws e \<Rightarrow> caught e s1)
      in (r, s2\<lparr>isLoading := False\<rparr>))"

text \<open>
  \<open>checkLatestVersion(refresh)\<close>: the version string is assigned only when
  \<open>parseVersion\<close> answers \<open>ok\<close>; otherwise it keeps its value.
\<close>

definition checkLatestVersion ::
  "bool \<Rightarrow> GoogleDriveFileInfo Result outcome \<Rightarrow> (string \<Rightarrow> string Result outcome) \<Rightarrow>
   page_state \<Rightarrow> page_result" where
  "checkLatestVersion refresh fetch_reply parseVersion s =
     (let s1 = s\<lparr>isFetchingLatest := True, error := None,
                  effects := effects s @ [Invoke (FetchPob refresh)]\<rparr>;
          (r, s2) =
            (case fetch_reply of
               Returns (Ok data) \<Rightarrow>
                 (let s3 = s1\<lparr>latestVersion := Some data,
                               effects := effects s1 @ [Invoke (ParseVersion (name data))]\<rparr>
                  in case parseVersion (name data) of
                       Throws e \<Rightarrow> caught e s3
                     | Returns parseResult \<Rightarrow>
                         (let s4 = (case parseResult of
                                      Ok v \<Rightarrow> s3\<lparr>latestVersionString := Some v\<rparr>
                                    | Error _ \<Rightarrow> s3)
                          in (Returns (),
                              if refresh
                              then s4\<lparr>effects := effects s4 @
                                     [Toast ToastSuccess txt_refresh_done
                                        (Some txt_refresh_done_desc)]\<rparr>
                              else s4)))
             | Returns (Error e) \<Rightarrow> (Returns (), handleError e txt_latest_check_failed s1)
             | Throws e \<Rightarrow> caught e s1)
      in (r, s2\<lparr>isFetchingLatest := False\<rparr>))"

text \<open>
  \<^verbatim>\<open>
  async function install() {
    if (!latestVersion) {
      error = { kind: "domain", message: ... };
      return;
    }
    isLoading = true;
    error = null;
    installProgress = null;
    try {
      const result = await commands.installPob(latestVersion, downloadMode);
      if (result.status === "error") {
        handleError(result.error, ...);
        installProgress = null;
      }
    } catch (e) {
      error = { kind: "unknown", message: `...${e}` };
      installProgress = null;
    } finally {
      isLoading = false;
    }
  }
  \<close>
\<close>

definition install :: "unit Result outcome \<Rightarrow> page_state \<Rightarrow> page_result" where
  "install reply s =
     (case latestVersion s of
        None \<Rightarrow>
          (Returns (),
           s\<lparr>error := Some \<lparr>kind = ''domain'', message = Some txt_check_latest_first\<rparr>\<rparr>)
      | Some lv \<Rightarrow>
          (let s1 = s\<lparr>isLoading := True, error := None, installProgress := None,
                       effects := effects s @ [Invoke (InstallPob lv (Some (downloadMode s)))]\<rparr>;
               (r, s2) =
                 (case reply of
                    Returns (Ok _) \<Rightarrow> (Returns (), s1)
                  | Returns (Error e) \<Rightarrow>
                      (Returns (), (handleError e txt_install_failed s1)\<lparr>installProgress := None\<rparr>)
                  | Throws e \<Rightarrow>
                      (case caught e s1 of
                         (Returns _, s3) \<Rightarrow> (Returns (), s3\<lparr>installProgress := None\<rparr>)
                       | (Throws t, s3) \<Rightarrow> (Throws t, s3)))
           in (r, s2\<lparr>isLoading := False\<rparr>)))"

text \<open>
  \<open>uninstall()\<close>: after an \<open>ok\<close> answer the page asks the backend for the installed
  version again (\<open>reply2\<close>), then shows the toast. If that inner call rejects, the toast is
  skipped and the rejection goes to the \<open>catch\<close> of \<open>uninstall\<close>.
\<close>

definition uninstall ::
  "unit Result outcome \<Rightarrow> PobVersion option Result outcome \<Rightarrow> page_state \<Rightarrow> page_result" where
  "uninstall reply reply2 s =
     (let s1 = s\<lparr>showUninstallDialog := False, isLoading := True, error := None,
                  effects := effects s @ [Invoke UninstallPob]\<rparr>;
          (r, s2) =
            (case reply of
               Returns (Error e) \<Rightarrow> (Returns (), handleError e txt_uninstall_failed s1)
             | Returns (Ok _) \<Rightarrow>
                 (case checkInstalledVersion reply2 s1 of
                    (Returns _, s3) \<Rightarrow>
                      (Returns (),
                       s3\<lparr>effects := effects s3 @
                            [Toast ToastSuccess txt_uninstall_done
                               (Some txt_uninstall_done_desc)]\<rparr>)
                  | (Throws t, s3) \<Rightarrow> caught t s3)
             | Throws e \<Rightarrow> caught e s1)
      in (r, s2\<lparr>isLoading := False\<rparr>))"




section \<open>The redesigned page (src/unnamed/part_001)\<close>



text \<open>
  The effect on \<open>installProgress\<close>, run when the listener has stored a payload: the
  same toasts and timers as on the main page.
\<close>

definition installProgress_effect :: "page_state \<Rightarrow> page_state" where
  "installProgress_effect s =
     (case installProgress s of
        None \<Rightarrow> s
      | Some p \<Rightarrow>
          if status p = Completed then
            s\<lparr>effects := effects s @
                 [Toast ToastSuccess txt_install_done (Some txt_install_done_desc),
                  SetTimeout_checkInstalledVersion 500]\<rparr>
          else if status p = Failed then
            s\<lparr>effects := effects s @
                 [Toast ToastError txt_install_failed (Some txt_install_failed_desc),
                  SetTimeout_checkInstalledVersion 500]\<rparr>
          else if status p = CancelledStatus then
            s\<lparr>effects := effects s @
                 [Toast ToastInfo txt_install_cancelled (Some txt_install_cancelled_desc),
                  SetTimeout_checkInstalledVersion 500]\<rparr>
          else s)"

text \<open>
  \<^verbatim>\<open>
  function handleError(errorKind: ErrorKind, context: string) {
    if (errorKind.kind === "cancelled") return;
    error = { kind: errorKind.kind, message: errorKind.message };
    toast.error(context, { description: errorKind.message });
  }
  \<close>
\<close>

definition handleError_hero :: "ErrorKind \<Rightarrow> string \<Rightarrow> page_state \<Rightarrow> page_state" where
  "handleError_hero errorKind context s =
     (if errorKind_kind errorKind = ''cancelled'' then s
      else s\<lparr>error := Some \<lparr>kind = errorKind_kind errorKind,
                              message = errorKind_message errorKind\<rparr>,
             effects := effects s @ [Toast ToastError context (errorKind_message errorKind)]\<rparr>)"

text \<open>
  \<^verbatim>\<open>
  async function install() {
    if (!latestVersion) {
      error = { kind: "domain", message: ... };
      return;
    }
    error = null;
    installProgress = null;
    try {
      const result = await commands.installPob(latestVersion);
      if (result.status === "error") {
        handleError(result.error, ...);
        installProgress = null;
      }
    } catch (e) {
      error = { kind: "unknown", message: `...${e}` };
      installProgress = null;
    }
  }
  \<close>
\<close>

definition install_hero :: "unit Result outcome \<Rightarrow> page_state \<Rightarrow> page_result" where
  "install_hero reply s =
     (case latestVersion s of
        None \<Rightarrow>
          (Returns (),
           s\<lparr>error := Some \<lparr>kind = ''domain'', message = Some txt_check_latest_first\<rparr>\<rparr>)
      | Some lv \<Rightarrow>
          (let s1 = s\<lparr>error := None, installProgress := None,
                       effects := effects s @ [Invoke (InstallPob lv None)]\<rparr>
           in case reply of
                Returns (Ok _) \<Rightarrow> (Returns (), s1)
              | Returns (Error e) \<Rightarrow>
                  (Returns (), (handleError_hero e txt_install_failed s1)\<lparr>installProgress := None\<rparr>)
              | Throws e \<Rightarrow>
                  (case caught e s1 of
                     (Returns _, s3) \<Rightarrow> (Returns (), s3\<lparr>installProgress := None\<rparr>)
                   | (Throws t, s3) \<Rightarrow> (Throws t, s3))))"


section \<open>The version resolver (backend)\<close>

text \<open>
  Modelled from the spec: the Rust backend (\<open>src-tauri/src/pob/version.rs\<close>, the
  command \<open>parseVersion\<close>) is not among the sources. Section 4.1 of the specification:
  the resolver extracts "the first dot-separated numeric run" of an artifact's name,
  tolerating any prefix and suffix, and fails with \<open>NotFound\<close> when there is none. A
  version token is read here as two or more non-empty runs of decimal digits separated
  by single dots, as in \<open>2.40.1\<close>.
\<close>

definition is_digit :: "char \<Rightarrow> bool" where
  "is_digit c = (c \<in> set ''0123456789'')"

definition is_number :: "string \<Rightarrow> bool" where
  "is_number n = (n \<noteq> [] \<and> list_all is_digit n)"

text \<open>The pieces of a string between its dots.\<close>

fun split_dots :: "string \<Rightarrow> string list" where
  "split_dots [] = [[]]"
| "split_dots (c # cs) =
     (if c = CHR ''.'' then [] # split_dots cs
      else (case split_dots cs of [] \<Rightarrow> [[c]] | p # ps \<Rightarrow> (c # p) # ps))"

text \<open>
  Modelled from the spec: what a version token is (section 3, \<open>VersionToken\<close>), and what
  it is for a name to contain one.
\<close>

definition is_version :: "string \<Rightarrow> bool" where
  "is_version v = (2 \<le> length (split_dots v) \<and> list_all is_number (split_dots v))"

definition contains_version :: "string \<Rightarrow> bool" where
  "contains_version s = (\<exists>pre v post. s = pre @ v @ post \<and> is_version v)"

text \<open>
  Modelled from the spec: the scan of the resolver. \<open>more_groups\<close> reads the longest
  prefix made of groups "dot, digits"; \<open>version_at\<close> the token that starts at the head
  of the string, if one does; \<open>find_version\<close> tries each position from the left, so the
  first match wins.
\<close>

function more_groups :: "string \<Rightarrow> string" where
  "more_groups [] = []"
| "more_groups (c # cs) =
     (if c = CHR ''.'' \<and> takeWhile is_digit cs \<noteq> []
      then c # takeWhile is_digit cs @ more_groups (dropWhile is_digit cs)
      else [])"
  by pat_completeness auto
termination
  by (relation "measure length") (auto simp: length_dropWhile_le less_Suc_eq_le)

definition version_at :: "string \<Rightarrow> string option" where
  "version_at s =
     (let n = takeWhile is_digit s; g = more_groups (dropWhile is_digit s)
      in if n \<noteq> [] \<and> g \<noteq> [] then Some (n @ g) else None)"

fun find_version :: "string \<Rightarrow> string option" where
  "find_version [] = None"
| "find_version (c # cs) =
     (case version_at (c # cs) of Some v \<Rightarrow> Some v | None \<Rightarrow> find_version cs)"

text \<open>
  Modelled from the spec: \<open>extractVersionToken(name) -> VersionToken | Error\<close> of
  section 6 (the command \<open>parseVersion\<close> of the pages).
\<close>

definition extractVersionToken :: "string \<Rightarrow> string Result" where
  "extractVersionToken artifact_name =
     (case find_version artifact_name of
        Some v \<Rightarrow> Ok v
      | None \<Rightarrow> Error (NotFound artifact_name))"

text \<open>The groups "dot, number" written out, for the proofs about the scan.\<close>

definition groups :: "string list \<Rightarrow> string" where
  "groups ns = concat (map (\<lambda>n. CHR ''.'' # n) ns)"

section \<open>The install pipeline (backend)\<close>

text \<open>
  Modelled from the spec: the Rust backend (\<open>src-tauri/src/pob/manager.rs\<close>, the
  commands \<open>installPob\<close>, \<open>uninstallPob\<close> and \<open>installedPobInfo\<close>) is not among the
  sources. The model follows sections 3, 4.5 and 6 of the specification. A directory is
  the list of its files, each a path and its bytes; the state is the install root, the
  pipeline's backup and staging directories, the downloaded file, the install record and
  the run guard.
\<close>

type_synonym tree = "(string \<times> string) list"

record backend_state =
  install_root :: "tree option"
  backup_dir :: "tree option"
  staging_dir :: "tree option"
  download_dest :: "string option"
  install_record :: "PobVersion option"
  run_active :: bool

definition backend_init :: backend_state where
  "backend_init =
     \<lparr>install_root = None, backup_dir = None, staging_dir = None, download_dest = None,
      install_record = None, run_active = False\<rparr>"

text \<open>
  Modelled from the spec: what the collaborators of one run answer. The download engine
  answers by mode with the bytes or with a \<open>Network\<close> or \<open>Io\<close> failure; extraction
  with the unpacked tree or a reason; the backup step with a reason if it fails; a failed
  move and a failed restore say what they left in the install root. \<open>cancel_during\<close> is
  the phase in which the user's cancellation is observed, if any.
\<close>

datatype download_result = Downloaded string | DownloadNetwork string | DownloadIo string

datatype extract_result = Extracted tree | ExtractFailed string

datatype move_result = Moved | MoveFailed string "tree option"

datatype restore_result = Restored | RestoreFailed string "tree option"

record run_env =
  target_running :: bool
  cancel_during :: "Phase option"
  download :: "DownloadMode \<Rightarrow> download_result"
  extraction :: extract_result
  backing_up :: "string option"
  move :: move_result
  restore :: restore_result
  removal :: "string option"
  timestamp :: string

text \<open>
  Modelled from the spec: the events of the progress bus. A phase that is entered emits
  \<open>started\<close>; the last event of a run carries the terminal status \<open>completed\<close>,
  \<open>failed\<close> (with the reason) or \<open>cancelled\<close>. Byte-level \<open>inProgress\<close> events are left
  out.
\<close>

definition started :: "Phase \<Rightarrow> nat option \<Rightarrow> InstallProgress" where
  "started ph known_size =
     \<lparr>phase = ph, status = Started, percent = 0, totalSize = known_size, reason = None\<rparr>"

definition terminal :: "Phase \<Rightarrow> Status \<Rightarrow> string option \<Rightarrow> InstallProgress" where
  "terminal ph st why =
     \<lparr>phase = ph, status = st, percent = (if st = Completed then 100 else 0),
      totalSize = None, reason = why\<rparr>"

definition terminal_status :: "InstallProgress list \<Rightarrow> Status option" where
  "terminal_status evs = (if evs = [] then None else Some (status (last evs)))"

type_synonym run_result = "unit Result \<times> InstallProgress list \<times> backend_state"

text \<open>
  Modelled from the spec: step 7, finalizing. The backup, the staging directory and the
  downloaded file are deleted and the new record is written.
\<close>

definition finalizing_stage :: "PobVersion \<Rightarrow> InstallProgress list \<Rightarrow> backend_state \<Rightarrow> run_result" where
  "finalizing_stage new_record evs st =
     (Ok (),
      evs @ [started Finalizing None, terminal Finalizing Completed None],
      st\<lparr>backup_dir := None, staging_dir := None, download_dest := None,
         install_record := Some new_record\<rparr>)"

text \<open>
  Modelled from the spec: step 6, restoring, entered only after the backup step completed
  in this run. The backup is moved back into the install root and the run fails with the
  original error; if the restore itself fails, the run fails with the restore's own
  \<open>Io\<close> error.
\<close>

definition restoring_stage :: "ErrorKind \<Rightarrow> run_env \<Rightarrow> InstallProgress list \<Rightarrow> backend_state \<Rightarrow> run_result" where
  "restoring_stage original env evs st =
     (let evs1 = evs @ [started Restoring None] in
      case restore env of
        Restored \<Rightarrow>
          (Error original,
           evs1 @ [terminal Restoring Failed (errorKind_message original)],
           st\<lparr>install_root := backup_dir st, backup_dir := None\<rparr>)
      | RestoreFailed why left \<Rightarrow>
          (Error (Io why),
           evs1 @ [terminal Restoring Failed (Some why)],
           st\<lparr>install_root := left\<rparr>))"

text \<open>
  Modelled from the spec: step 5, moving the staged tree into the install root. A failure
  is an \<open>Io\<close> error; it leads to the restore when a backup was made in this run.
\<close>

definition moving_stage :: "bool \<Rightarrow> PobVersion \<Rightarrow> run_env \<Rightarrow> InstallProgress list \<Rightarrow> backend_state \<Rightarrow> run_result" where
  "moving_stage backed_up new_record env evs st =
     (let evs1 = evs @ [started Moving None] in
      case move env of
        Moved \<Rightarrow>
          finalizing_stage new_record evs1
            (st\<lparr>install_root := staging_dir st, staging_dir := None\<rparr>)
      | MoveFailed why left \<Rightarrow>
          (let st1 = st\<lparr>install_root := left\<rparr> in
           if backed_up then restoring_stage (Io why) env evs1 st1
           else (Error (Io why), evs1 @ [terminal Moving Failed (Some why)], st1)))"

text \<open>
  Modelled from the spec: step 4, backing up. Without an existing install the step is
  skipped; otherwise the install root is moved aside, and a failure of that ends the run
  with the install root as it was.
\<close>

definition backing_up_stage :: "PobVersion \<Rightarrow> run_env \<Rightarrow> InstallProgress list \<Rightarrow> backend_state \<Rightarrow> run_result" where
  "backing_up_stage new_record env evs st =
     (case install_root st of
        None \<Rightarrow> moving_stage False new_record env evs st
      | Some old \<Rightarrow>
          (let evs1 = evs @ [started BackingUp None] in
           case backing_up env of
             Some why \<Rightarrow> (Error (Io why), evs1 @ [terminal BackingUp Failed (Some why)], st)
           | None \<Rightarrow>
               moving_stage True new_record env evs1
                 (st\<lparr>backup_dir := Some old, install_root := None\<rparr>)))"

text \<open>
  Modelled from the spec: step 3, extracting into the staging directory; a cancellation
  observed here is honoured, a corrupt archive is a \<open>Domain\<close> error.
\<close>

definition extracting_stage :: "PobVersion \<Rightarrow> run_env \<Rightarrow> InstallProgress list \<Rightarrow> backend_state \<Rightarrow> run_result" where
  "extracting_stage new_record env evs st =
     (let evs1 = evs @ [started Extracting None] in
      if cancel_during env = Some Extracting
      then (Error Cancelled, evs1 @ [terminal Extracting CancelledStatus None],
            st\<lparr>download_dest := None\<rparr>)
      else case extraction env of
             ExtractFailed why \<Rightarrow>
               (Error (Domain why), evs1 @ [terminal Extracting Failed (Some why)],
                st\<lparr>download_dest := None\<rparr>)
           | Extracted t \<Rightarrow>
               backing_up_stage new_record env evs1 (st\<lparr>staging_dir := Some t\<rparr>))"

text \<open>
  Modelled from the spec: step 2, downloading with the caller's mode. A cancelled or
  failed download leaves no file at the destination.
\<close>

definition downloading_stage :: "PobVersion \<Rightarrow> DownloadMode \<Rightarrow> run_env \<Rightarrow> backend_state \<Rightarrow> run_result" where
  "downloading_stage new_record mode env st =
     (if cancel_during env = Some Downloading
      then (Error Cancelled,
            [started Downloading None, terminal Downloading CancelledStatus None], st)
      else case download env mode of
             DownloadNetwork why \<Rightarrow>
               (Error (Network why),
                [started Downloading None, terminal Downloading Failed (Some why)], st)
           | DownloadIo why \<Rightarrow>
               (Error (Io why),
                [started Downloading None, terminal Downloading Failed (Some why)], st)
           | Downloaded bytes \<Rightarrow>
               extracting_stage new_record env [started Downloading (Some (length bytes))]
                 (st\<lparr>download_dest := Some bytes\<rparr>))"

text \<open>
  Modelled from the spec: \<open>install(ref, mode)\<close>. A run that finds the guard held, or the
  target running (step 1), fails with \<open>Conflict\<close> and touches nothing. The record's
  version is the token resolved from the artifact's name; it is resolved before the first
  phase, and a name without a token ends the run with the resolver's \<open>NotFound\<close>. The
  guard is held for the run only, so the state between runs has it free.
\<close>

definition install_pob :: "GoogleDriveFileInfo \<Rightarrow> DownloadMode \<Rightarrow> run_env \<Rightarrow> backend_state \<Rightarrow> run_result" where
  "install_pob artifact mode env st =
     (if run_active st then (Error (Conflict ''operation already in progress''), [], st)
      else if target_running env then (Error (Conflict ''target is running''), [], st)
      else case extractVersionToken (name artifact) of
             Error e \<Rightarrow> (Error e, [], st)
           | Ok v \<Rightarrow>
               downloading_stage
                 \<lparr>version = v, sourceId = file_id artifact, installedAt = timestamp env\<rparr>
                 mode env st)"

text \<open>
  Modelled from the spec: \<open>uninstall()\<close>. After the same preconditions the
  \<open>uninstalling\<close> phase removes the install root and the install record.
\<close>

definition uninstall_pob :: "run_env \<Rightarrow> backend_state \<Rightarrow> run_result" where
  "uninstall_pob env st =
     (if run_active st then (Error (Conflict ''operation already in progress''), [], st)
      else if target_running env then (Error (Conflict ''target is running''), [], st)
      else case removal env of
             Some why \<Rightarrow>
               (Error (Io why),
                [started Uninstalling None, terminal Uninstalling Failed (Some why)], st)
           | None \<Rightarrow>
               (Ok (),
                [started Uninstalling None, terminal Uninstalling Completed None],
                st\<lparr>install_root := None, install_record := None\<rparr>))"

text \<open>
  Modelled from the spec: \<open>installedVersion() -> InstallRecord | None\<close>, the command
  \<open>installedPobInfo\<close> of the pages. The record is the sole source of truth.
\<close>

definition installed_pob_info :: "backend_state \<Rightarrow> PobVersion option Result" where
  "installed_pob_info st = Ok (install_record st)"

text \<open>A history of runs, each with what its collaborators answered.\<close>

datatype operation = Install GoogleDriveFileInfo DownloadMode run_env | Uninstall run_env

fun apply_operation :: "operation \<Rightarrow> backend_state \<Rightarrow> run_result" where
  "apply_operation (Install artifact mode env) st = install_pob artifact mode env st"
| "apply_operation (Uninstall env) st = uninstall_pob env st"

fun is_install :: "operation \<Rightarrow> bool" where
  "is_install (Install artifact mode env) = True"
| "is_install (Uninstall env) = False"

fun run_operations :: "operation list \<Rightarrow> backend_state \<Rightarrow> backend_state" where
  "run_operations [] st = st"
| "run_operations (operation # rest) st =
     run_operations rest (snd (snd (apply_operation operation st)))"

text \<open>No install run of the history ends with the status \<open>completed\<close>.\<close>

fun no_completed_install :: "operation list \<Rightarrow> backend_state \<Rightarrow> bool" where
  "no_completed_install [] st = True"
| "no_completed_install (operation # rest) st =
     (\<not> (is_install operation \<and>
          terminal_status (fst (snd (apply_operation operation st))) = Some Completed) \<and>
      no_completed_install rest (snd (snd (apply_operation operation st))))"

section \<open>Concrete inputs\<close>

text \<open>
  A page on which version 2.40.0 is installed and 2.40.1 has been fetched and parsed
  (the scenario of section 8 of the specification), and a progress event of a run that
  has just started.
\<close>

definition demo_record :: PobVersion where
  "demo_record = \<lparr>version = ''2.40.0'', sourceId = ''f1'', installedAt = ''2026-01-12''\<rparr>"

definition demo_file :: GoogleDriveFileInfo where
  "demo_file = \<lparr>file_id = ''f2'', name = ''PathOfBuilding-2.40.1.zip'', isFolder = False\<rparr>"


definition demo_page :: page_state where
  "demo_page =
     (page_init Map.empty)\<lparr>installedVersion := Some demo_record,
        latestVersion := Some demo_file, latestVersionString := Some ''2.40.1''\<rparr>"

text \<open>
  What a rejected promise can carry: an object without a prototype has no string
  conversion, and converting it throws a \<open>TypeError\<close>.
\<close>

definition conversion_TypeError :: thrown where
  "conversion_TypeError =
     ErrorInstance ''Cannot convert object to primitive value''
       ''TypeError: Cannot convert object to primitive value''"

definition no_prototype_object :: thrown where
  "no_prototype_object = Unconvertible conversion_TypeError"


text \<open>
  A backend on which version 2.40.0 is installed, and the answers of a run in which the
  download, the extraction and the backup succeed and the move fails; in \<open>env_restore_fails\<close>
  the restore fails as well.
\<close>

definition old_tree :: tree where
  "old_tree = [(''PathOfBuilding.exe'', ''old-bytes'')]"

definition new_tree :: tree where
  "new_tree = [(''PathOfBuilding.exe'', ''new-bytes'')]"

definition backend_installed :: backend_state where
  "backend_installed = backend_init\<lparr>install_root := Some old_tree, install_record := Some demo_record\<rparr>"

definition env_ok :: run_env where
  "env_ok =
     \<lparr>target_running = False, cancel_during = None, download = (\<lambda>mode. Downloaded ''zip-bytes''),
      extraction = Extracted new_tree, backing_up = None, move = Moved, restore = Restored,
      removal = None, timestamp = ''2026-01-13''\<rparr>"

definition env_move_fails :: run_env where
  "env_move_fails = env_ok\<lparr>move := MoveFailed ''access denied'' (Some [])\<rparr>"

definition env_restore_fails :: run_env where
  "env_restore_fails = env_move_fails\<lparr>restore := RestoreFailed ''disk full'' (Some [])\<rparr>"

section \<open>Properties of the settings store\<close>

text \<open>
  C10. \<open>loadSettings()\<close> returns the stored boolean when the key \<open>autoCheckUpdate\<close> is
  present and the default \<open>true\<close> when it is absent (it returns the module's settings
  object, so \<open>getSettings()\<close> agrees); and when \<open>setAutoCheckUpdate(v)\<close> completes, that is
  neither \<open>store.set\<close> nor \<open>store.save\<close> rejected, \<open>getSettings().autoCheckUpdate\<close> is
  \<open>v\<close>.
\<close>

theorem settings_load_and_set:
  "(get_rejects io = None \<longrightarrow>
      (\<exists>s m'. loadSettings io m = Returns (s, m') \<and> s = getSettings m' \<and>
         autoCheckUpdate s =
           (case entries m ''autoCheckUpdate'' of Some b \<Rightarrow> b | None \<Rightarrow> True))) \<and>
   (setAutoCheckUpdate v io m = Returns m2 \<longrightarrow> autoCheckUpdate (getSettings m2) = v)"
  by (auto simp: loadSettings_def setAutoCheckUpdate_def getSettings_def DEFAULT_SETTINGS_def
        Let_def split: option.splits)

theorem settings_load_and_set_witness:
  "get_rejects io_ok = None \<and>
   (\<exists>s m'. loadSettings io_ok settings_init = Returns (s, m') \<and> autoCheckUpdate s = True) \<and>
   (\<exists>m2. setAutoCheckUpdate False io_ok settings_init = Returns m2 \<and>
      autoCheckUpdate (getSettings m2) = False \<and>
      (\<exists>s m'. loadSettings io_ok m2 = Returns (s, m') \<and> autoCheckUpdate s = False))"
proof -
  have g: "get_rejects io_ok = None"
    by (simp add: io_ok_def)
  obtain m2 where m2: "setAutoCheckUpdate False io_ok settings_init = Returns m2"
    by (simp add: setAutoCheckUpdate_def io_ok_def Let_def)
  have e0: "entries settings_init ''autoCheckUpdate'' = None"
    by (simp add: settings_init_def)
  have e2: "entries m2 ''autoCheckUpdate'' = Some False"
    using m2 by (auto simp: setAutoCheckUpdate_def io_ok_def Let_def)
  from settings_load_and_set [of io_ok settings_init False m2] g m2 e0
  have a: "(\<exists>s m'. loadSettings io_ok settings_init = Returns (s, m') \<and> autoCheckUpdate s = True)"
    and b: "autoCheckUpdate (getSettings m2) = False"
    by auto
  from settings_load_and_set [of io_ok m2 False m2] g e2
  have c: "\<exists>s m'. loadSettings io_ok m2 = Returns (s, m') \<and> autoCheckUpdate s = False"
    by auto
  from g a b c m2 show ?thesis by blast
qed

section \<open>Properties of the updater store\<close>

text \<open>
  C9, as the claim states it, fails when the conversion in the \<open>catch\<close> throws: if
  \<open>check()\<close> rejects with an object that has no string conversion, \<open>String(e)\<close> throws,
  \<open>checkForUpdate()\<close> rejects with that \<open>TypeError\<close> instead of returning \<open>null\<close>, and
  \<open>state.error\<close>, set to \<open>null\<close> before the \<open>try\<close>, records no message.
\<close>

theorem checkForUpdate_throws_counterexample:
  "fst (checkForUpdate (Throws no_prototype_object) update_state_init) =
     Throws conversion_TypeError \<and>
   upd_error (snd (checkForUpdate (Throws no_prototype_object) update_state_init)) = None \<and>
   checking (snd (checkForUpdate (Throws no_prototype_object) update_state_init)) = False"
  by (simp add: checkForUpdate_def no_prototype_object_def Let_def)

text \<open>
  C9, amended. \<open>checkForUpdate()\<close> returns without throwing whenever \<open>check()\<close> resolves
  or rejects with an \<open>Error\<close> or with a value that \<open>String()\<close> converts: a resolved check
  is returned and recorded with \<open>state.error\<close> null; a failure makes it return \<open>null\<close> and
  records in \<open>state.error\<close> the \<open>message\<close> of an \<open>Error\<close> and the string conversion of any
  other value, leaving \<open>update\<close> and \<open>available\<close> as they were. When the conversion itself
  throws, the call rejects with what it threw and \<open>state.error\<close> is null. In every case
  \<open>state.checking\<close> is false after the call.
\<close>

theorem checkForUpdate_outcomes:
  "checkForUpdate (Returns u) st =
     (Returns u, st\<lparr>checking := False, upd_error := None, update := u,
                     available := (u \<noteq> None)\<rparr>) \<and>
   checkForUpdate (Throws (ErrorInstance m str)) st =
     (Returns None, st\<lparr>checking := False, upd_error := Some m\<rparr>) \<and>
   checkForUpdate (Throws (OtherThrown str)) st =
     (Returns None, st\<lparr>checking := False, upd_error := Some str\<rparr>) \<and>
   checkForUpdate (Throws (SymbolThrown str t)) st =
     (Returns None, st\<lparr>checking := False, upd_error := Some str\<rparr>) \<and>
   checkForUpdate (Throws (Unconvertible t)) st =
     (Throws t, st\<lparr>checking := False, upd_error := None\<rparr>) \<and>
   checking (snd (checkForUpdate chk st)) = False"
proof -
  have "checking (snd (checkForUpdate chk st)) = False"
    by (simp add: checkForUpdate_def Let_def split: outcome.splits prod.splits)
  then show ?thesis
    by (simp add: checkForUpdate_def Let_def)
qed

section \<open>Properties of the version resolver\<close>

lemma dot_not_digit: "\<not> is_digit CHR ''.''"
  by (simp add: is_digit_def)

lemma groups_simps [simp]:
  "groups [] = []"
  "groups (n # ns) = CHR ''.'' # n @ groups ns"
  by (simp_all add: groups_def)

lemma split_dots_not_Nil [simp]: "split_dots s \<noteq> []"
  by (induction s) (auto split: list.splits)

lemma split_dots_digits:
  "list_all is_digit n \<Longrightarrow>
     split_dots (n @ s) = (n @ hd (split_dots s)) # tl (split_dots s)"
proof (induction n)
  case Nil
  then show ?case by (cases "split_dots s") simp_all
next
  case (Cons c n)
  then have "c \<noteq> CHR ''.''" using dot_not_digit by auto
  with Cons show ?case by simp
qed

lemma split_dots_groups:
  "list_all is_digit n \<Longrightarrow> list_all is_number ns \<Longrightarrow> split_dots (n @ groups ns) = n # ns"
proof (induction ns arbitrary: n)
  case Nil
  then show ?case using split_dots_digits [of n "[]"] by simp
next
  case (Cons m ms)
  then have "split_dots (m @ groups ms) = m # ms"
    by (simp add: is_number_def)
  with Cons.prems show ?case
    using split_dots_digits [of n "CHR ''.'' # m @ groups ms"] by simp
qed

lemma is_version_groups:
  assumes "is_number n" "ns \<noteq> []" "list_all is_number ns"
  shows "is_version (n @ groups ns)"
proof -
  from assms(1) have "list_all is_digit n"
    by (simp add: is_number_def)
  then have h: "split_dots (n @ groups ns) = n # ns"
    using assms(3) by (rule split_dots_groups)
  show ?thesis
    unfolding is_version_def h using assms by (cases ns) simp_all
qed

lemma join_split_dots: "hd (split_dots s) @ groups (tl (split_dots s)) = s"
proof (induction s)
  case Nil
  then show ?case by simp
next
  case (Cons c s)
  then show ?case by (cases "split_dots s") auto
qed

lemma is_version_shape:
  assumes "is_version v"
  shows "\<exists>n ns. v = n @ groups ns \<and> is_number n \<and> ns \<noteq> [] \<and> list_all is_number ns"
proof -
  obtain n ns where sp: "split_dots v = n # ns"
    by (cases "split_dots v") simp_all
  from assms sp have "is_number n" "ns \<noteq> []" "list_all is_number ns"
    by (auto simp: is_version_def)
  moreover from join_split_dots [of v] sp have "v = n @ groups ns" by simp
  ultimately show ?thesis by blast
qed

lemma prefix_takeWhile_dropWhile:
  assumes "prefix g (dropWhile P xs)"
  shows "prefix (takeWhile P xs @ g) xs"
proof -
  from assms obtain z where z: "dropWhile P xs = g @ z"
    by (auto simp: prefix_def)
  have "takeWhile P xs @ dropWhile P xs = xs"
    by (rule takeWhile_dropWhile_id)
  then have "xs = (takeWhile P xs @ g) @ z"
    unfolding z by simp
  then show ?thesis by (rule prefixI)
qed

lemma more_groups_sound:
  "\<exists>ns. more_groups s = groups ns \<and> list_all is_number ns \<and> prefix (more_groups s) s"
proof (induction s rule: more_groups.induct)
  case 1
  have "more_groups [] = groups [] \<and> list_all is_number [] \<and> prefix (more_groups []) []"
    by simp
  then show ?case by blast
next
  case (2 c cs)
  show ?case
  proof (cases "c = CHR ''.'' \<and> takeWhile is_digit cs \<noteq> []")
    case True
    with 2 obtain ns where ns: "more_groups (dropWhile is_digit cs) = groups ns"
      "list_all is_number ns" "prefix (more_groups (dropWhile is_digit cs)) (dropWhile is_digit cs)"
      by blast
    let ?n = "takeWhile is_digit cs"
    have n: "is_number ?n"
      using True by (simp add: is_number_def list_all_iff) (meson set_takeWhileD)
    have p: "prefix (?n @ more_groups (dropWhile is_digit cs)) cs"
      by (rule prefix_takeWhile_dropWhile [OF ns(3)])
    have "more_groups (c # cs) = groups (?n # ns) \<and> list_all is_number (?n # ns) \<and>
          prefix (more_groups (c # cs)) (c # cs)"
      using True ns n p by simp
    then show ?thesis by blast
  next
    case False
    then have "more_groups (c # cs) = groups [] \<and> list_all is_number [] \<and>
          prefix (more_groups (c # cs)) (c # cs)"
      by auto
    then show ?thesis by blast
  qed
qed

lemma version_at_sound:
  assumes "version_at s = Some w"
  shows "is_version w \<and> prefix w s"
proof -
  let ?n = "takeWhile is_digit s" and ?r = "dropWhile is_digit s"
  from assms have w: "w = ?n @ more_groups ?r" and n: "?n \<noteq> []" and g: "more_groups ?r \<noteq> []"
    by (auto simp: version_at_def Let_def split: if_splits)
  obtain ns where ns: "more_groups ?r = groups ns" "list_all is_number ns"
    "prefix (more_groups ?r) ?r"
    using more_groups_sound [of ?r] by blast
  from g ns(1) have ne: "ns \<noteq> []" by auto
  have num: "is_number ?n"
    using n by (simp add: is_number_def list_all_iff) (meson set_takeWhileD)
  have "prefix (?n @ more_groups ?r) s"
    by (rule prefix_takeWhile_dropWhile [OF ns(3)])
  then have "prefix w s" using w by simp
  moreover have "is_version w"
    using w ns(1) is_version_groups [OF num ne ns(2)] by simp
  ultimately show ?thesis by blast
qed

lemma takeWhile_digits_groups:
  "list_all is_digit n \<Longrightarrow> ns \<noteq> [] \<Longrightarrow>
     takeWhile is_digit (n @ groups ns @ post) = n \<and>
     dropWhile is_digit (n @ groups ns @ post) = groups ns @ post"
  by (cases ns) (simp_all add: list_all_iff takeWhile_append2 dropWhile_append2 dot_not_digit)

lemma more_groups_complete:
  "list_all is_number ns \<Longrightarrow> prefix (groups ns) (more_groups (groups ns @ post))"
proof (induction ns)
  case Nil
  then show ?case by simp
next
  case (Cons n ns)
  from Cons.prems have rest: "list_all is_number ns"
    by simp
  from Cons.prems have n: "n \<noteq> []" "list_all is_digit n"
    by (simp_all add: is_number_def)
  show ?case
  proof (cases "ns = []")
    case True
    have t: "takeWhile is_digit (n @ post) = n @ takeWhile is_digit post"
      using n(2) by (simp add: list_all_iff takeWhile_append2)
    show ?thesis using True n t by simp
  next
    case False
    from takeWhile_digits_groups [OF n(2) False, of post] Cons.IH [OF rest] n(1)
    show ?thesis by simp
  qed
qed

lemma version_at_complete:
  assumes "is_version v"
  shows "\<exists>w. version_at (v @ post) = Some w \<and> prefix v w"
proof -
  from is_version_shape [OF assms] obtain n ns where
    v: "v = n @ groups ns" and n: "is_number n" and ne: "ns \<noteq> []" and ns: "list_all is_number ns"
    by blast
  from n have nd: "list_all is_digit n" and nn: "n \<noteq> []"
    by (simp_all add: is_number_def)
  note td = takeWhile_digits_groups [OF nd ne, of post]
  have p: "prefix (groups ns) (more_groups (groups ns @ post))"
    by (rule more_groups_complete [OF ns])
  from ne have "groups ns \<noteq> []" by (cases ns) simp_all
  with p have g: "more_groups (groups ns @ post) \<noteq> []" by auto
  have "version_at (v @ post) = Some (n @ more_groups (groups ns @ post))"
    using v td nn g by (simp add: version_at_def Let_def)
  moreover have "prefix v (n @ more_groups (groups ns @ post))"
    using v p by simp
  ultimately show ?thesis by blast
qed

lemma version_at_Nil [simp]: "version_at [] = None"
  by (simp add: version_at_def)

lemma find_version_None:
  "find_version s = None \<Longrightarrow> version_at (drop k s) = None"
proof (induction s arbitrary: k)
  case Nil
  then show ?case by simp
next
  case (Cons c cs)
  then show ?case by (cases k) (auto split: option.splits)
qed

lemma find_version_Some:
  "find_version s = Some w \<Longrightarrow>
     \<exists>pre. version_at (drop (length pre) s) = Some w \<and> prefix pre s \<and>
           (\<forall>k<length pre. version_at (drop k s) = None)"
proof (induction s)
  case Nil
  then show ?case by simp
next
  case (Cons c cs)
  show ?case
  proof (cases "version_at (c # cs)")
    case (Some v)
    with Cons.prems have "version_at (drop (length ([]::string)) (c # cs)) = Some w \<and>
        prefix ([]::string) (c # cs) \<and>
        (\<forall>k<length ([]::string). version_at (drop k (c # cs)) = None)"
      by simp
    then show ?thesis by blast
  next
    case None
    with Cons obtain pre where pre: "version_at (drop (length pre) cs) = Some w"
      "prefix pre cs" "\<forall>k<length pre. version_at (drop k cs) = None"
      by auto
    have "\<forall>k<length (c # pre). version_at (drop k (c # cs)) = None"
    proof (intro allI impI)
      fix k assume "k < length (c # pre)"
      then show "version_at (drop k (c # cs)) = None"
        using None pre(3) by (cases k) auto
    qed
    with pre(1,2) have "version_at (drop (length (c # pre)) (c # cs)) = Some w \<and>
        prefix (c # pre) (c # cs) \<and> (\<forall>k<length (c # pre). version_at (drop k (c # cs)) = None)"
      by simp
    then show ?thesis by blast
  qed
qed

text \<open>
  C4. If the name contains a version token as a substring, \<open>extractVersionToken\<close>
  returns a substring of the name that is a version token, and the first match wins:
  no token of the name starts further left, and every token starting at the same place is
  a prefix of the one returned. If the name contains none, the empty name included, the
  result is a \<open>NotFound\<close> error. The resolver is a total function of the name alone, so
  it neither panics nor has an effect.
\<close>

theorem extractVersionToken_first_match:
  "(contains_version nm \<longrightarrow>
      (\<exists>pre v post. extractVersionToken nm = Ok v \<and> nm = pre @ v @ post \<and> is_version v \<and>
         (\<forall>pre' v' post'. nm = pre' @ v' @ post' \<and> is_version v' \<longrightarrow>
            length pre < length pre' \<or> (length pre = length pre' \<and> prefix v' v)))) \<and>
   (\<not> contains_version nm \<longrightarrow> extractVersionToken nm = Error (NotFound nm)) \<and>
   extractVersionToken [] = Error (NotFound [])"
proof (intro conjI impI)
  assume "contains_version nm"
  then obtain p0 v0 q0 where d0: "nm = p0 @ v0 @ q0" and iv0: "is_version v0"
    unfolding contains_version_def by blast
  from d0 have dr0: "drop (length p0) nm = v0 @ q0"
    by simp
  from version_at_complete [OF iv0, of q0] obtain w0 where
    "version_at (drop (length p0) nm) = Some w0"
    unfolding dr0 by blast
  then have "find_version nm \<noteq> None"
    using find_version_None [of nm "length p0"] by auto
  then obtain w where w: "find_version nm = Some w"
    by auto
  from find_version_Some [OF w] obtain pre where
    at: "version_at (drop (length pre) nm) = Some w" and pp: "prefix pre nm" and
    first: "\<forall>k<length pre. version_at (drop k nm) = None"
    by blast
  from version_at_sound [OF at] have iw: "is_version w" and pw: "prefix w (drop (length pre) nm)"
    by simp_all
  from pp obtain r where r: "nm = pre @ r"
    unfolding prefix_def by blast
  from pw r obtain post where post: "r = w @ post"
    unfolding prefix_def by auto
  have dec: "nm = pre @ w @ post"
    unfolding r post by simp
  have best: "\<forall>pre' v' post'. nm = pre' @ v' @ post' \<and> is_version v' \<longrightarrow>
            length pre < length pre' \<or> (length pre = length pre' \<and> prefix v' w)"
  proof (intro allI impI)
    fix pre' v' post'
    assume a: "nm = pre' @ v' @ post' \<and> is_version v'"
    then have dr: "drop (length pre') nm = v' @ post'" and iv: "is_version v'"
      by simp_all
    from version_at_complete [OF iv, of post'] obtain w' where
      w': "version_at (drop (length pre') nm) = Some w'" "prefix v' w'"
      unfolding dr by blast
    have nl: "\<not> length pre' < length pre"
    proof
      assume "length pre' < length pre"
      with first have "version_at (drop (length pre') nm) = None"
        by blast
      with w'(1) show False by simp
    qed
    show "length pre < length pre' \<or> (length pre = length pre' \<and> prefix v' w)"
    proof (cases "length pre = length pre'")
      case True
      with at w'(1) have "w' = w" by simp
      with w'(2) True show ?thesis by simp
    next
      case False
      with nl show ?thesis by simp
    qed
  qed
  have ex: "extractVersionToken nm = Ok w"
    using w by (simp add: extractVersionToken_def)
  show "\<exists>pre v post. extractVersionToken nm = Ok v \<and> nm = pre @ v @ post \<and> is_version v \<and>
         (\<forall>pre' v' post'. nm = pre' @ v' @ post' \<and> is_version v' \<longrightarrow>
            length pre < length pre' \<or> (length pre = length pre' \<and> prefix v' v))"
  proof (intro exI conjI)
    show "extractVersionToken nm = Ok w" by (rule ex)
    show "nm = pre @ w @ post" by (rule dec)
    show "is_version w" by (rule iw)
    show "\<forall>pre' v' post'. nm = pre' @ v' @ post' \<and> is_version v' \<longrightarrow>
            length pre < length pre' \<or> (length pre = length pre' \<and> prefix v' w)"
      by (rule best)
  qed
next
  assume nc: "\<not> contains_version nm"
  show "extractVersionToken nm = Error (NotFound nm)"
  proof (cases "find_version nm")
    case None
    then show ?thesis by (simp add: extractVersionToken_def)
  next
    case (Some w)
    from find_version_Some [OF Some] obtain pre where
      at: "version_at (drop (length pre) nm) = Some w" and pp: "prefix pre nm"
      by blast
    from version_at_sound [OF at] have iw: "is_version w" and pw: "prefix w (drop (length pre) nm)"
      by simp_all
    from pp obtain r where r: "nm = pre @ r"
      unfolding prefix_def by blast
    from pw r obtain post where post: "r = w @ post"
      unfolding prefix_def by auto
    have "nm = pre @ w @ post"
      unfolding r post by simp
    with iw have "contains_version nm"
      unfolding contains_version_def by blast
    with nc show ?thesis by simp
  qed
next
  show "extractVersionToken [] = Error (NotFound [])"
    by (simp add: extractVersionToken_def)
qed

theorem extractVersionToken_first_match_witness:
  "contains_version ''PathOfBuilding-2.40.1-win64.zip'' \<and>
   extractVersionToken ''PathOfBuilding-2.40.1-win64.zip'' = Ok ''2.40.1'' \<and>
   extractVersionToken ''pob-1.2-and-3.4.5.zip'' = Ok ''1.2'' \<and>
   \<not> contains_version ''win64.zip'' \<and>
   extractVersionToken ''win64.zip'' = Error (NotFound ''win64.zip'')"
proof -
  have v: "is_version ''2.40.1''"
    by (simp add: is_version_def is_number_def is_digit_def)
  have "''PathOfBuilding-2.40.1-win64.zip'' = ''PathOfBuilding-'' @ ''2.40.1'' @ ''-win64.zip''"
    by simp
  with v have c: "contains_version ''PathOfBuilding-2.40.1-win64.zip''"
    unfolding contains_version_def by blast
  have e1: "extractVersionToken ''PathOfBuilding-2.40.1-win64.zip'' = Ok ''2.40.1''"
    by (simp add: extractVersionToken_def version_at_def is_digit_def)
  have e2: "extractVersionToken ''pob-1.2-and-3.4.5.zip'' = Ok ''1.2''"
    by (simp add: extractVersionToken_def version_at_def is_digit_def)
  have e3: "extractVersionToken ''win64.zip'' = Error (NotFound ''win64.zip'')"
    by (simp add: extractVersionToken_def version_at_def is_digit_def)
  have n: "\<not> contains_version ''win64.zip''"
  proof
    assume "contains_version ''win64.zip''"
    with extractVersionToken_first_match [of "''win64.zip''"]
    obtain v where "extractVersionToken ''win64.zip'' = Ok v"
      by blast
    with e3 show False by simp
  qed
  from c e1 e2 n e3 show ?thesis by blast
qed

text \<open>A token the resolver returns is a version token, so it is never empty.\<close>

lemma extracted_token_not_empty:
  assumes "extractVersionToken nm = Ok v"
  shows "is_version v \<and> v \<noteq> []"
proof -
  from assms have fv: "find_version nm = Some v"
    by (simp add: extractVersionToken_def split: option.splits)
  from find_version_Some [OF fv] obtain pre :: string where
    at: "version_at (drop (length pre) nm) = Some v"
    by blast
  from version_at_sound [OF at] have iv: "is_version v"
    by simp
  have "\<not> is_version []"
    by (simp add: is_version_def)
  with iv show ?thesis by auto
qed

section \<open>Properties of the pages\<close>

lemma errorKind_kind_cancelled: "errorKind_kind ek = ''cancelled'' \<longleftrightarrow> ek = Cancelled"
  by (cases ek) simp_all

lemma demo_page_fields:
  "installedVersion demo_page = Some demo_record"
  "latestVersionString demo_page = Some ''2.40.1''"
  "latestVersion demo_page = Some demo_file"
  "installProgress demo_page = None"
  "error demo_page = None"
  "effects demo_page = []"
  "downloadMode demo_page = ''auto''"
  by (simp_all add: demo_page_def page_init_def)


text \<open>
  The \<open>catch\<close> of a page function stores the converted value under the kind \<open>unknown\<close>;
  when the template literal throws (a symbol, a value without a string conversion), the
  function rejects after its \<open>finally\<close> and \<open>error\<close> stays null.
\<close>

lemma caught_outcomes:
  "caught (ErrorInstance m str) s =
     (Returns (), s\<lparr>error := Some \<lparr>kind = ''unknown'', message = Some (txt_error_prefix @ str)\<rparr>\<rparr>)"
  "caught (OtherThrown str) s =
     (Returns (), s\<lparr>error := Some \<lparr>kind = ''unknown'', message = Some (txt_error_prefix @ str)\<rparr>\<rparr>)"
  "caught (SymbolThrown str t) s = (Throws t, s)"
  "caught (Unconvertible t) s = (Throws t, s)"
  by (simp_all add: caught_def)

lemma checkInstalledVersion_rejects:
  "checkInstalledVersion (Throws (SymbolThrown str t)) s =
     (Throws t, s\<lparr>isLoading := False, error := None,
                   effects := effects s @ [Invoke InstalledPobInfo]\<rparr>)"
  by (simp add: checkInstalledVersion_def caught_def Let_def)

text \<open>
  What the pages hold as the latest version string when the backend's \<open>parseVersion\<close> is
  the resolver: the token of the fetched artifact's name, or the former value when the name
  has none.
\<close>

lemma checkLatestVersion_parsed:
  "latestVersionString
     (snd (checkLatestVersion refresh (Returns (Ok d)) (\<lambda>n. Returns (extractVersionToken n)) s)) =
   (case extractVersionToken (name d) of
      Ok v \<Rightarrow> Some v
    | Error e \<Rightarrow> latestVersionString s)"
  by (simp add: checkLatestVersion_def Let_def split: Result.splits)




text \<open>
  C2. A result whose error kind is \<open>cancelled\<close> is a silent no-op on both pages:
  \<open>handleError\<close> leaves the whole state as it is, so the visible error is not set and no
  toast is shown, and such an error carries no message.
\<close>

theorem cancelled_is_silent:
  "errorKind_kind ek = ''cancelled'' \<Longrightarrow>
     handleError ek context s = s \<and> handleError_hero ek context s = s \<and>
     errorKind_message ek = None"
  by (simp add: handleError_def handleError_hero_def errorKind_kind_cancelled)

theorem cancelled_is_silent_witness:
  "errorKind_kind Cancelled = ''cancelled'' \<and>
   handleError Cancelled txt_install_failed demo_page = demo_page \<and>
   handleError_hero Cancelled txt_install_failed demo_page = demo_page \<and>
   fst (install (Returns (Error Cancelled)) demo_page) = Returns () \<and>
   error (snd (install (Returns (Error Cancelled)) demo_page)) = None \<and>
   effects (snd (install (Returns (Error Cancelled)) demo_page)) =
     [Invoke (InstallPob demo_file (Some ''auto''))]"
proof -
  have k: "errorKind_kind Cancelled = ''cancelled''" by simp
  note h = cancelled_is_silent [OF k]
  show ?thesis
    by (simp add: h install_def demo_page_fields Let_def)
qed

lemma cancelled_progress_shows_info_only:
  "installProgress s = Some p \<Longrightarrow> status p = CancelledStatus \<Longrightarrow>
     error (installProgress_effect s) = error s \<and>
     effects (installProgress_effect s) =
       effects s @ [Toast ToastInfo txt_install_cancelled (Some txt_install_cancelled_desc),
                    SetTimeout_checkInstalledVersion 500]"
  by (simp add: installProgress_effect_def)








text \<open>
  C8. When no latest artifact has been fetched (\<open>latestVersion\<close> is null), \<open>install\<close> on
  either page only sets the visible error to kind \<open>domain\<close> with a message: no command is
  invoked, and \<open>isLoading\<close> and \<open>installProgress\<close> are as before.
\<close>

theorem install_without_latest:
  "latestVersion s = None \<Longrightarrow>
     install reply s =
       (Returns (),
        s\<lparr>error := Some \<lparr>kind = ''domain'', message = Some txt_check_latest_first\<rparr>\<rparr>) \<and>
     install_hero reply s =
       (Returns (),
        s\<lparr>error := Some \<lparr>kind = ''domain'', message = Some txt_check_latest_first\<rparr>\<rparr>) \<and>
     effects (snd (install reply s)) = effects s \<and>
     effects (snd (install_hero reply s)) = effects s \<and>
     isLoading (snd (install reply s)) = isLoading s \<and>
     installProgress (snd (install reply s)) = installProgress s \<and>
     installProgress (snd (install_hero reply s)) = installProgress s"
  by (simp add: install_def install_hero_def)

theorem install_without_latest_witness:
  "latestVersion (page_init Map.empty) = None \<and>
   error (snd (install (Returns (Ok ())) (page_init Map.empty))) =
     Some \<lparr>kind = ''domain'', message = Some txt_check_latest_first\<rparr> \<and>
   effects (snd (install (Returns (Ok ())) (page_init Map.empty))) = [] \<and>
   isLoading (snd (install (Returns (Ok ())) (page_init Map.empty))) = False \<and>
   installProgress (snd (install (Returns (Ok ())) (page_init Map.empty))) = None"
proof -
  have l: "latestVersion (page_init Map.empty) = None"
    by (simp add: page_init_def)
  note h = install_without_latest [OF l, of "Returns (Ok ())"]
  show ?thesis
    using h l by (simp add: page_init_def)
qed

section \<open>Properties of the install pipeline\<close>

lemmas stage_defs = install_pob_def downloading_stage_def extracting_stage_def
  backing_up_stage_def moving_stage_def restoring_stage_def finalizing_stage_def

lemmas stage_splits = if_splits Result.splits download_result.splits extract_result.splits
  option.splits move_result.splits restore_result.splits

lemma backup_completed_iff:
  "install_pob a mode env st = (r, evs, st') \<Longrightarrow>
   (BackingUp \<in> phase ` set evs \<and> Moving \<in> phase ` set evs) =
   (\<not> run_active st \<and> \<not> target_running env \<and> (\<exists>v. extractVersionToken (name a) = Ok v) \<and>
    cancel_during env \<noteq> Some Downloading \<and> (\<exists>bytes. download env mode = Downloaded bytes) \<and>
    cancel_during env \<noteq> Some Extracting \<and> (\<exists>t. extraction env = Extracted t) \<and>
    install_root st \<noteq> None \<and> backing_up env = None)"
  by (auto simp: stage_defs started_def terminal_def Let_def split: stage_splits)

text \<open>
  C5. In every install run in which the backup step completed (the run entered
  \<open>backingUp\<close> and went on to the later step, \<open>moving\<close>) and that later step fails, the
  pipeline enters \<open>restoring\<close> and the run ends with the status \<open>failed\<close>, never
  \<open>completed\<close>, with the install record as before. The restore puts the backup back, so
  the install root has its pre-run contents byte for byte, whatever the failed move left
  there, and the failure carries the reason of the original error. The case the
  specification sets apart, a restore that itself fails, is stated with it: the run then
  reports the restore's own \<open>Io\<close> error.
\<close>

theorem restore_after_failed_move:
  "install_pob a mode env st = (r, evs, st') \<Longrightarrow>
   BackingUp \<in> phase ` set evs \<Longrightarrow> Moving \<in> phase ` set evs \<Longrightarrow>
   move env = MoveFailed why left \<Longrightarrow>
     Restoring \<in> phase ` set evs \<and> terminal_status evs = Some Failed \<and>
     terminal_status evs \<noteq> Some Completed \<and> r \<noteq> Ok () \<and>
     install_record st' = install_record st \<and>
     (restore env = Restored \<longrightarrow>
        install_root st' = install_root st \<and> r = Error (Io why) \<and>
        reason (last evs) = Some why) \<and>
     (\<forall>w l. restore env = RestoreFailed w l \<longrightarrow>
        install_root st' = l \<and> r = Error (Io w) \<and> reason (last evs) = Some w)"
  by (auto simp: stage_defs started_def terminal_def terminal_status_def Let_def
      split: stage_splits)

lemma demo_file_version: "extractVersionToken (name demo_file) = Ok ''2.40.1''"
  by (simp add: demo_file_def extractVersionToken_def version_at_def is_digit_def)

lemma run_move_fails:
  "install_pob demo_file Auto env_move_fails backend_installed =
     (Error (Io ''access denied''),
      [started Downloading (Some (length ''zip-bytes'')), started Extracting None, started BackingUp None,
       started Moving None, started Restoring None,
       terminal Restoring Failed (Some ''access denied'')],
      backend_installed\<lparr>download_dest := Some ''zip-bytes'', staging_dir := Some new_tree\<rparr>)"
  by (simp add: stage_defs demo_file_version env_move_fails_def env_ok_def
      backend_installed_def backend_init_def Let_def)

text \<open>The run in which the restore fails as well: step 6's exception.\<close>

lemma run_restore_fails:
  "install_pob demo_file Auto env_restore_fails backend_installed =
     (Error (Io ''disk full''),
      [started Downloading (Some (length ''zip-bytes'')), started Extracting None, started BackingUp None,
       started Moving None, started Restoring None,
       terminal Restoring Failed (Some ''disk full'')],
      backend_installed\<lparr>download_dest := Some ''zip-bytes'', staging_dir := Some new_tree,
         backup_dir := Some old_tree, install_root := Some []\<rparr>)"
  by (simp add: stage_defs demo_file_version env_restore_fails_def env_move_fails_def env_ok_def
      backend_installed_def backend_init_def Let_def)

theorem restore_after_failed_move_witness:
  "fst (install_pob demo_file Auto env_move_fails backend_installed) = Error (Io ''access denied'') \<and>
   map phase (fst (snd (install_pob demo_file Auto env_move_fails backend_installed))) =
     [Downloading, Extracting, BackingUp, Moving, Restoring, Restoring] \<and>
   terminal_status (fst (snd (install_pob demo_file Auto env_move_fails backend_installed))) =
     Some Failed \<and>
   install_root (snd (snd (install_pob demo_file Auto env_move_fails backend_installed))) =
     Some old_tree \<and>
   install_record (snd (snd (install_pob demo_file Auto env_move_fails backend_installed))) =
     Some demo_record"
proof -
  let ?evs = "[started Downloading (Some (length ''zip-bytes'')), started Extracting None, started BackingUp None,
       started Moving None, started Restoring None,
       terminal Restoring Failed (Some ''access denied'')]"
  let ?st = "backend_installed\<lparr>download_dest := Some ''zip-bytes'', staging_dir := Some new_tree\<rparr>"
  have b: "BackingUp \<in> phase ` set ?evs" and m: "Moving \<in> phase ` set ?evs"
    by (simp_all add: started_def terminal_def)
  have mv: "move env_move_fails = MoveFailed ''access denied'' (Some [])"
    and rs: "restore env_move_fails = Restored"
    by (simp_all add: env_move_fails_def env_ok_def)
  from restore_after_failed_move [OF run_move_fails b m mv] rs
  have "terminal_status ?evs = Some Failed"
    and "install_record ?st = install_record backend_installed"
    and "install_root ?st = install_root backend_installed"
    by simp_all
  then show ?thesis
    unfolding run_move_fails
    by (simp add: started_def terminal_def backend_installed_def backend_init_def)
qed

lemma completed_iff_Ok:
  "install_pob a mode env st = (r, evs, st') \<Longrightarrow>
     (terminal_status evs = Some Completed) = (r = Ok ())"
  by (auto simp: stage_defs started_def terminal_def terminal_status_def Let_def
      split: stage_splits)

lemma install_record_after_install:
  "install_pob a mode env st = (r, evs, st') \<Longrightarrow>
     (if terminal_status evs = Some Completed
      then \<exists>v. extractVersionToken (name a) = Ok v \<and>
             install_record st' =
               Some \<lparr>version = v, sourceId = file_id a, installedAt = timestamp env\<rparr>
      else install_record st' = install_record st)"
  by (auto simp: stage_defs started_def terminal_def terminal_status_def Let_def
      split: stage_splits)

lemma install_record_after_uninstall:
  "uninstall_pob env st = (r, evs, st') \<Longrightarrow>
     (if r = Ok () then install_record st' = None else install_record st' = install_record st)"
  by (auto simp: uninstall_pob_def split: stage_splits)

lemma no_record_without_completed_install:
  "no_completed_install ops st \<Longrightarrow> install_record st = None \<Longrightarrow>
     install_record (run_operations ops st) = None"
proof (induction ops arbitrary: st)
  case Nil
  then show ?case by simp
next
  case (Cons operation rest)
  obtain r evs st' where run: "apply_operation operation st = (r, evs, st')"
    by (cases "apply_operation operation st") auto
  have "install_record st' = None"
  proof (cases operation)
    case (Install a mode env)
    with run Cons.prems install_record_after_install [of a mode env st r evs st']
    show ?thesis by (auto split: if_splits)
  next
    case (Uninstall env)
    with run Cons.prems install_record_after_uninstall [of env st r evs st']
    show ?thesis by (auto split: if_splits)
  qed
  moreover from Cons.prems run have "no_completed_install rest st'"
    by simp
  ultimately show ?case
    using Cons.IH [of st'] run by simp
qed

text \<open>
  C6. The installed-version query answers \<open>None\<close> before any successful install: in
  the initial state, and after any history of runs in which no install completed.
  Immediately after an install run that ends with the status \<open>completed\<close> it answers a
  record whose version is the token resolved from the artifact's name, and immediately
  after a successful uninstall it answers \<open>None\<close> again. The page's
  \<open>checkInstalledVersion\<close> stores that answer in \<open>installedVersion\<close>.
\<close>

theorem installed_record_lifecycle:
  "installed_pob_info backend_init = Ok None \<and>
   (no_completed_install ops backend_init \<longrightarrow>
      installed_pob_info (run_operations ops backend_init) = Ok None) \<and>
   (install_pob a mode env st = (r, evs, st') \<and> terminal_status evs = Some Completed \<longrightarrow>
      (\<exists>installed v. installed_pob_info st' = Ok (Some installed) \<and>
         extractVersionToken (name a) = Ok v \<and> version installed = v \<and>
         installedVersion (snd (checkInstalledVersion (Returns (installed_pob_info st')) s)) =
           Some installed)) \<and>
   (uninstall_pob env2 st1 = (Ok (), evs2, st2) \<longrightarrow>
      installed_pob_info st2 = Ok None \<and>
      installedVersion (snd (checkInstalledVersion (Returns (installed_pob_info st2)) s)) = None)"
proof (intro conjI impI)
  show "installed_pob_info backend_init = Ok None"
    by (simp add: installed_pob_info_def backend_init_def)
next
  assume "no_completed_install ops backend_init"
  then have "install_record (run_operations ops backend_init) = None"
    by (rule no_record_without_completed_install) (simp add: backend_init_def)
  then show "installed_pob_info (run_operations ops backend_init) = Ok None"
    by (simp add: installed_pob_info_def)
next
  assume a: "install_pob a mode env st = (r, evs, st') \<and> terminal_status evs = Some Completed"
  with install_record_after_install [of a mode env st r evs st']
  obtain v where "extractVersionToken (name a) = Ok v"
    "install_record st' = Some \<lparr>version = v, sourceId = file_id a, installedAt = timestamp env\<rparr>"
    by auto
  then show "\<exists>installed v. installed_pob_info st' = Ok (Some installed) \<and>
         extractVersionToken (name a) = Ok v \<and> version installed = v \<and>
         installedVersion (snd (checkInstalledVersion (Returns (installed_pob_info st')) s)) =
           Some installed"
    by (simp add: installed_pob_info_def checkInstalledVersion_def Let_def)
next
  assume u: "uninstall_pob env2 st1 = (Ok (), evs2, st2)"
  with install_record_after_uninstall [of env2 st1 "Ok ()" evs2 st2]
  have n: "install_record st2 = None" by simp
  then show "installed_pob_info st2 = Ok None"
    by (simp add: installed_pob_info_def)
  from n show "installedVersion (snd (checkInstalledVersion (Returns (installed_pob_info st2)) s)) = None"
    by (simp add: installed_pob_info_def checkInstalledVersion_def Let_def)
qed


lemma run_ok:
  "install_pob demo_file Auto env_ok backend_init =
     (Ok (),
      [started Downloading (Some (length ''zip-bytes'')), started Extracting None,
       started Moving None, started Finalizing None, terminal Finalizing Completed None],
      backend_init\<lparr>install_root := Some new_tree,
         install_record :=
           Some \<lparr>version = ''2.40.1'', sourceId = ''f2'', installedAt = ''2026-01-13''\<rparr>\<rparr>)"
  using demo_file_version
  by (simp add: stage_defs env_ok_def backend_init_def demo_file_def Let_def)

lemma run_uninstall_ok:
  "uninstall_pob env_ok
     (backend_init\<lparr>install_root := Some new_tree,
         install_record :=
           Some \<lparr>version = ''2.40.1'', sourceId = ''f2'', installedAt = ''2026-01-13''\<rparr>\<rparr>) =
     (Ok (),
      [started Uninstalling None, terminal Uninstalling Completed None],
      backend_init)"
  by (simp add: uninstall_pob_def env_ok_def backend_init_def)

lemma run_move_fails_fresh:
  "install_pob demo_file Auto env_move_fails backend_init =
     (Error (Io ''access denied''),
      [started Downloading (Some (length ''zip-bytes'')), started Extracting None,
       started Moving None, terminal Moving Failed (Some ''access denied'')],
      backend_init\<lparr>download_dest := Some ''zip-bytes'', staging_dir := Some new_tree,
         install_root := Some []\<rparr>)"
  by (simp add: stage_defs demo_file_version env_move_fails_def env_ok_def backend_init_def Let_def)

theorem installed_record_lifecycle_witness:
  "no_completed_install [Install demo_file Auto env_move_fails] backend_init \<and>
   installed_pob_info (run_operations [Install demo_file Auto env_move_fails] backend_init) =
     Ok None \<and>
   terminal_status (fst (snd (install_pob demo_file Auto env_ok backend_init))) =
     Some Completed \<and>
   (\<exists>installed.
      installed_pob_info (snd (snd (install_pob demo_file Auto env_ok backend_init))) =
        Ok (Some installed) \<and> version installed = ''2.40.1'') \<and>
   fst (uninstall_pob env_ok (snd (snd (install_pob demo_file Auto env_ok backend_init)))) =
     Ok () \<and>
   installed_pob_info
     (snd (snd (uninstall_pob env_ok
        (snd (snd (install_pob demo_file Auto env_ok backend_init)))))) = Ok None"
proof -
  let ?evs = "[started Downloading (Some (length ''zip-bytes'')), started Extracting None,
       started Moving None, started Finalizing None, terminal Finalizing Completed None]"
  let ?st = "backend_init\<lparr>install_root := Some new_tree,
         install_record :=
           Some \<lparr>version = ''2.40.1'', sourceId = ''f2'', installedAt = ''2026-01-13''\<rparr>\<rparr>"
  let ?ops = "[Install demo_file Auto env_move_fails]"
  have nc: "no_completed_install ?ops backend_init"
    by (simp add: run_move_fails_fresh terminal_status_def terminal_def)
  have tc: "terminal_status ?evs = Some Completed"
    by (simp add: terminal_status_def terminal_def)
  note life = installed_record_lifecycle
    [where ops = ?ops and a = demo_file and mode = Auto and env = env_ok and
       st = backend_init and r = "Ok ()" and evs = ?evs and st' = ?st and s = demo_page and
       ?env2.0 = env_ok and ?st1.0 = ?st and
       ?evs2.0 = "[started Uninstalling None, terminal Uninstalling Completed None]" and
       ?st2.0 = backend_init]
  from life nc have a: "installed_pob_info (run_operations ?ops backend_init) = Ok None"
    by blast
  from life run_ok tc demo_file_version
  have b: "\<exists>installed. installed_pob_info ?st = Ok (Some installed) \<and>
             version installed = ''2.40.1''"
    by auto
  from life run_uninstall_ok have c: "installed_pob_info backend_init = Ok None"
    by blast
  from nc a tc b c show ?thesis
    unfolding run_ok snd_conv fst_conv run_uninstall_ok by simp
qed

end
